theory Spec2Isabelle
  imports Complex_Main "HOL-Library.AList" "HOL-Library.Char_ord" "HOL-Library.Sublist"
begin

section \<open>Configuration (app/config.py)\<close>

text \<open>
  The fields of \<^verbatim>\<open>Settings\<close> that the modelled code reads. Python integers are
  unbounded, so they are \<^typ>\<open>int\<close>.
\<close>

record settings =
  file_storage_path :: string
  storage_warning_threshold :: int
  storage_critical_threshold :: int
  storage_emergency_threshold :: int
  job_cache_ttl :: int
  file_cache_ttl :: int
  max_upload_size :: int
  max_file_size_mb :: int
  file_retention_days :: int
  cleanup_orphaned_files_hours :: int
  upload_timeout_seconds :: int

definition default_settings :: settings where
  "default_settings =
     \<lparr> file_storage_path = ''/tmp/file_scanner_data/files'',
       storage_warning_threshold = 85,
       storage_critical_threshold = 90,
       storage_emergency_threshold = 95,
       job_cache_ttl = 3600,
       file_cache_ttl = 86400,
       max_upload_size = 104857600,
       max_file_size_mb = 100,
       file_retention_days = 7,
       cleanup_orphaned_files_hours = 1,
       upload_timeout_seconds = 300 \<rparr>"

section \<open>Storage pressure (app/storage.py)\<close>

datatype storage_status = Healthy | Warning | Critical | Emergency

text \<open>
  \<^verbatim>\<open>_get_storage_status\<close>: the percentage is a Python float; every finite float is
  a real number and Python compares a float with an int exactly, so the ladder is
  stated over \<^typ>\<open>real\<close>.
\<close>

definition get_storage_status :: "settings \<Rightarrow> real \<Rightarrow> storage_status" where
  "get_storage_status cfg percent_used =
     (if percent_used \<ge> real_of_int (storage_emergency_threshold cfg) then Emergency
      else if percent_used \<ge> real_of_int (storage_critical_threshold cfg) then Critical
      else if percent_used \<ge> real_of_int (storage_warning_threshold cfg) then Warning
      else Healthy)"

text \<open>The result of \<^verbatim>\<open>shutil.disk_usage\<close>.\<close>

record disk_usage =
  du_total :: int
  du_used :: int
  du_free :: int

text \<open>
  The dictionary returned by \<^verbatim>\<open>get_storage_stats\<close> on success. The failure
  dictionary \<^verbatim>\<open>{"error": str(e), "status": "unknown"}\<close> is the \<open>Inl\<close> side of
  the result, carrying the error text.
\<close>

record storage_stats =
  total_bytes :: int
  used_bytes :: int
  free_bytes :: int
  percent_used :: real
  stats_status :: storage_status

text \<open>\<^verbatim>\<open>round(x, 2)\<close>: to two decimals, ties to the even neighbour.\<close>

definition round_half_even :: "real \<Rightarrow> int" where
  "round_half_even x =
     (let f = \<lfloor>x\<rfloor>; d = x - real_of_int f in
      if d < 1 / 2 then f
      else if d > 1 / 2 then f + 1
      else if even f then f else f + 1)"

definition py_round2 :: "real \<Rightarrow> real" where
  "py_round2 x = real_of_int (round_half_even (x * 100)) / 100"

text \<open>
  Python floats are IEEE binary64 numbers: the result of a division or a multiplication
  is the exact result rounded to a significand of 53 bits, ties to the even neighbour.
  \<open>round_to_double\<close> is that rounding: for \<open>x\<close> in the binade
  \<open>2 ^ e \<le> \<bar>x\<bar> < 2 ^ (e + 1)\<close> the representable numbers are the multiples of
  \<open>2 ^ (e - 52)\<close>. The exponent range of binary64 is not modelled: the sizes come
  from \<^verbatim>\<open>statvfs\<close>, and their quotient never leaves it.
\<close>

definition round_to_double :: "real \<Rightarrow> real" where
  "round_to_double x =
     (if x = 0 then 0
      else
        let ulp = 2 powr real_of_int (\<lfloor>log 2 \<bar>x\<bar>\<rfloor> - 52) in
        real_of_int (round_half_even (x / ulp)) * ulp)"

text \<open>
  \<^verbatim>\<open>(used / total) * 100\<close> on two integers: the true division of Python gives
  the correctly rounded quotient, and the product with 100 is rounded again.
\<close>

definition float_percent :: "int \<Rightarrow> int \<Rightarrow> real" where
  "float_percent u t = round_to_double (round_to_double (real_of_int u / real_of_int t) * 100)"

text \<open>
  \<^verbatim>\<open>get_storage_stats\<close>. Its argument is what \<^verbatim>\<open>shutil.disk_usage\<close> does:
  \<open>Inl msg\<close> when it raises, \<open>Inr du\<close> when it returns. A total of zero makes the
  division raise \<^verbatim>\<open>ZeroDivisionError\<close>, which the same handler catches. The
  tier is taken from the float before it is rounded to two decimals;
  \<open>percent_used\<close> holds the two-decimal number that \<^verbatim>\<open>round\<close> returns and the
  messages print.
\<close>

definition get_storage_stats :: "settings \<Rightarrow> string + disk_usage \<Rightarrow> string + storage_stats" where
  "get_storage_stats cfg usage =
     (case usage of
        Inl msg \<Rightarrow> Inl msg
      | Inr du \<Rightarrow>
          if du_total du = 0 then Inl ''division by zero''
          else
            let p = float_percent (du_used du) (du_total du) in
            Inr \<lparr> total_bytes = du_total du,
                  used_bytes = du_used du,
                  free_bytes = du_free du,
                  percent_used = py_round2 p,
                  stats_status = get_storage_status cfg p \<rparr>)"

text \<open>
  The second component of \<^verbatim>\<open>should_accept_upload\<close>'s result:
  \<^verbatim>\<open>"ok"\<close>, \<^verbatim>\<open>f"warning: storage at {percent_used}%"\<close> and
  \<^verbatim>\<open>f"Storage critical: {percent_used}% used. Uploads temporarily disabled."\<close>,
  each with the percentage it prints.
\<close>

datatype accept_reason =
    ReasonOk
  | ReasonWarning real
  | ReasonStorageCritical real

definition should_accept_upload :: "settings \<Rightarrow> string + disk_usage \<Rightarrow> bool \<times> accept_reason" where
  "should_accept_upload cfg usage =
     (case get_storage_stats cfg usage of
        Inl err \<Rightarrow> (True, ReasonOk)
      | Inr stats \<Rightarrow>
          if stats_status stats = Emergency then (False, ReasonStorageCritical (percent_used stats))
          else if stats_status stats = Critical then (True, ReasonWarning (percent_used stats))
          else (True, ReasonOk))"

section \<open>Errors and the file system\<close>

text \<open>
  The exceptions the modelled code raises or lets through. \<^verbatim>\<open>IOError\<close> is
  Python's alias of \<^verbatim>\<open>OSError\<close>; \<^verbatim>\<open>FileNotFoundError\<close> is kept apart
  because the worker raises it by name. \<open>HTTPException\<close> carries the status code
  and the detail; a \<open>detail\<close> stands for the text the code formats, with the values
  it prints.
\<close>

datatype detail =
    NoFileProvided
  | FileDoesNotExistOrIsEmpty
  | StorageDetail accept_reason
  | FileTooLarge int
  | UploadTimeout int
  | InternalServerError string

datatype error =
    HTTPException int detail
  | OSError string
  | FileNotFoundError string
  | RedisError string
  | UniqueViolation string

definition corruption_message :: string where
  "corruption_message = ''File corruption detected during upload''"

text \<open>
  A file is its bytes and its modification time (seconds). The file system is an
  association list from path strings to files; directories are implicit, so
  \<^verbatim>\<open>mkdir\<close> and \<^verbatim>\<open>rmdir\<close> leave it unchanged.
\<close>

record stored_file =
  content :: string
  mtime :: int

type_synonym filesystem = "(string \<times> stored_file) list"

definition path_exists :: "filesystem \<Rightarrow> string \<Rightarrow> bool" where
  "path_exists fs p = (map_of fs p \<noteq> None)"

definition unlink :: "string \<Rightarrow> filesystem \<Rightarrow> filesystem" where
  "unlink p fs = AList.delete p fs"

definition write_file :: "string \<Rightarrow> stored_file \<Rightarrow> filesystem \<Rightarrow> filesystem" where
  "write_file p f fs = AList.update p f fs"

text \<open>\<^verbatim>\<open>shutil.move(src, dst)\<close> for a source that exists.\<close>

definition move_file :: "string \<Rightarrow> string \<Rightarrow> filesystem \<Rightarrow> filesystem" where
  "move_file src dst fs =
     (case map_of fs src of
        None \<Rightarrow> fs
      | Some f \<Rightarrow> write_file dst f (unlink src fs))"

section \<open>Content-addressed storage (app/storage.py)\<close>

definition chunk_size :: nat where
  "chunk_size = 1024 * 1024"

text \<open>
  \<^verbatim>\<open>_get_file_path\<close>: \<^verbatim>\<open>base_path / hash[0:2] / hash[2:4] / hash\<close>.
\<close>

definition get_file_path :: "settings \<Rightarrow> string \<Rightarrow> string" where
  "get_file_path cfg file_hash =
     file_storage_path cfg @ ''/'' @ take 2 file_hash @ ''/'' @ take 2 (drop 2 file_hash)
       @ ''/'' @ file_hash"

definition temp_file_path :: "settings \<Rightarrow> string \<Rightarrow> string \<Rightarrow> string" where
  "temp_file_path cfg uuid_hex filename =
     file_storage_path cfg @ ''/'' @ ''temp_'' @ uuid_hex @ ''_'' @ filename"

text \<open>
  What the surroundings do during one \<^verbatim>\<open>calculate_hash_and_save\<close>: the timeout
  of \<^verbatim>\<open>asyncio.timeout\<close> can fire while the upload is streamed or while the
  temporary file is re-read, and opening or writing the temporary file can raise.
\<close>

datatype save_fault =
    NoFault
  | StreamTimeout
  | StreamOSError string
  | VerifyTimeout

text \<open>
  The environment of one save: the fresh \<^verbatim>\<open>uuid.uuid4().hex\<close>, the clock, the
  fault, and \<open>stored\<close>: the bytes the temporary file holds once the given bytes
  were written to it (the identity on a sound disk).
\<close>

record save_env =
  temp_uuid :: string
  save_now :: int
  fault :: save_fault
  stored :: "string \<Rightarrow> string"

text \<open>
  The streaming loop of \<^verbatim>\<open>calculate_hash_and_save\<close>. The state is the bytes fed
  to \<^verbatim>\<open>sha256.update\<close> so far, \<^verbatim>\<open>file_size\<close>, and the bytes written.
\<close>

function stream_chunks :: "string \<Rightarrow> string \<times> int \<times> string \<Rightarrow> string \<times> int \<times> string" where
  "stream_chunks file_data (hashed, file_size, written) =
     (if take chunk_size file_data = [] then (hashed, file_size, written)
      else stream_chunks (drop chunk_size file_data)
             (hashed @ take chunk_size file_data,
              file_size + int (length (take chunk_size file_data)),
              written @ take chunk_size file_data))"
  by pat_completeness auto
termination
  by (relation "measure (\<lambda>(file_data, st). length file_data)") (auto simp: chunk_size_def)

text \<open>The re-reading loop of \<^verbatim>\<open>_verify_file_integrity\<close>.\<close>

function verify_chunks :: "string \<Rightarrow> string \<Rightarrow> string" where
  "verify_chunks file_data hashed =
     (if take chunk_size file_data = [] then hashed
      else verify_chunks (drop chunk_size file_data) (hashed @ take chunk_size file_data))"
  by pat_completeness auto
termination
  by (relation "measure (\<lambda>(file_data, st). length file_data)") (auto simp: chunk_size_def)

text \<open>
  \<^verbatim>\<open>_verify_file_integrity\<close>. The parameter \<open>H\<close> is
  \<^verbatim>\<open>hashlib.sha256(...).hexdigest()\<close> of the bytes fed to the hasher.
\<close>

definition verify_file_integrity ::
  "(string \<Rightarrow> string) \<Rightarrow> filesystem \<Rightarrow> string \<Rightarrow> string \<Rightarrow> filesystem \<times> (error + unit)" where
  "verify_file_integrity H fs file_path expected_hash =
     (case map_of fs file_path of
        None \<Rightarrow> (fs, Inl (FileNotFoundError file_path))
      | Some f \<Rightarrow>
          let calculated_hash = H (verify_chunks (content f) []) in
          if calculated_hash \<noteq> expected_hash
          then (unlink file_path fs, Inl (OSError corruption_message))
          else (fs, Inr ()))"

text \<open>
  The detail \<^verbatim>\<open>f"Upload timeout: file upload took longer than
  {settings.upload_timeout_seconds} seconds"\<close>, with the number it prints.
\<close>

definition timeout_detail :: "settings \<Rightarrow> detail" where
  "timeout_detail cfg = UploadTimeout (upload_timeout_seconds cfg)"

text \<open>
  \<^verbatim>\<open>calculate_hash_and_save\<close>. Both handlers delete the temporary file when it
  exists; the timeout handler raises status 408, the other re-raises.
\<close>

definition calculate_hash_and_save ::
  "(string \<Rightarrow> string) \<Rightarrow> settings \<Rightarrow> save_env \<Rightarrow> filesystem \<Rightarrow> string \<Rightarrow> string
     \<Rightarrow> filesystem \<times> (error + string \<times> int \<times> string)" where
  "calculate_hash_and_save H cfg env fs file_data filename =
     (let temp_path = temp_file_path cfg (temp_uuid env) filename in
      case fault env of
        StreamTimeout \<Rightarrow> (unlink temp_path fs, Inl (HTTPException 408 (timeout_detail cfg)))
      | StreamOSError msg \<Rightarrow> (unlink temp_path fs, Inl (OSError msg))
      | _ \<Rightarrow>
          (case stream_chunks file_data ([], 0, []) of
             (hashed, file_size, written) \<Rightarrow>
               let fs1 = write_file temp_path
                           \<lparr> content = stored env written, mtime = save_now env \<rparr> fs;
                   file_hash = H hashed;
                   final_path = get_file_path cfg file_hash in
               if path_exists fs1 final_path
               then (unlink temp_path fs1, Inr (file_hash, file_size, final_path))
               else if fault env = VerifyTimeout
               then (unlink temp_path fs1, Inl (HTTPException 408 (timeout_detail cfg)))
               else
                 (case verify_file_integrity H fs1 temp_path file_hash of
                    (fs2, Inl e) \<Rightarrow> (unlink temp_path fs2, Inl e)
                  | (fs2, Inr u) \<Rightarrow>
                      (move_file temp_path final_path fs2,
                       Inr (file_hash, file_size, final_path)))))"

text \<open>\<^verbatim>\<open>file_exists\<close>, \<^verbatim>\<open>delete_file\<close> and \<^verbatim>\<open>delete_files\<close>.\<close>

definition file_exists :: "settings \<Rightarrow> filesystem \<Rightarrow> string \<Rightarrow> bool" where
  "file_exists cfg fs file_hash = path_exists fs (get_file_path cfg file_hash)"

definition delete_file :: "settings \<Rightarrow> filesystem \<Rightarrow> string \<Rightarrow> filesystem \<times> bool" where
  "delete_file cfg fs file_hash =
     (let file_path = get_file_path cfg file_hash in
      if path_exists fs file_path then (unlink file_path fs, True) else (fs, False))"

fun delete_files :: "settings \<Rightarrow> filesystem \<Rightarrow> string list \<Rightarrow> filesystem \<times> int" where
  "delete_files cfg fs [] = (fs, 0)"
| "delete_files cfg fs (file_hash # rest) =
     (case delete_file cfg fs file_hash of
        (fs1, deleted) \<Rightarrow>
          (case delete_files cfg fs1 rest of
             (fs2, n) \<Rightarrow> (fs2, (if deleted then 1 else 0) + n)))"

text \<open>
  \<^verbatim>\<open>cleanup_orphaned_temp_files\<close>. \<open>is_temp_file\<close> is the glob
  \<^verbatim>\<open>base_path / "temp_*"\<close>: an entry directly under the base directory whose
  name starts with \<^verbatim>\<open>temp_\<close>.
\<close>

definition is_temp_file :: "settings \<Rightarrow> string \<Rightarrow> bool" where
  "is_temp_file cfg p =
     (let pre = file_storage_path cfg @ ''/'' in
      prefix pre p \<and> prefix ''temp_'' (drop (length pre) p)
        \<and> CHR ''/'' \<notin> set (drop (length pre) p))"

record orphan_result =
  deleted_count :: int
  deleted_size_bytes :: int

fun cleanup_temp_loop ::
  "settings \<Rightarrow> int \<Rightarrow> (string \<times> stored_file) list \<Rightarrow> filesystem \<Rightarrow> orphan_result
     \<Rightarrow> filesystem \<times> orphan_result" where
  "cleanup_temp_loop cfg now [] fs acc = (fs, acc)"
| "cleanup_temp_loop cfg now ((p, f) # rest) fs acc =
     (if now - mtime f > cleanup_orphaned_files_hours cfg * 3600
      then cleanup_temp_loop cfg now rest (unlink p fs)
             \<lparr> deleted_count = deleted_count acc + 1,
               deleted_size_bytes = deleted_size_bytes acc + int (length (content f)) \<rparr>
      else cleanup_temp_loop cfg now rest fs acc)"

definition cleanup_orphaned_temp_files ::
  "settings \<Rightarrow> int \<Rightarrow> filesystem \<Rightarrow> filesystem \<times> orphan_result" where
  "cleanup_orphaned_temp_files cfg now fs =
     cleanup_temp_loop cfg now (filter (\<lambda>(p, f). is_temp_file cfg p) fs) fs
       \<lparr> deleted_count = 0, deleted_size_bytes = 0 \<rparr>"

section \<open>Jobs and the record store (app/models.py, app/database.py)\<close>

datatype JobStatus = Pending | Processing | Completed | Failed

text \<open>
  A scan result is a Python dictionary from one-character strings to integers, kept as
  an association list in insertion order. A row of the \<^verbatim>\<open>jobs\<close> table; times are
  seconds on one clock, shared by \<^verbatim>\<open>NOW()\<close> and \<^verbatim>\<open>datetime.utcnow()\<close>.
\<close>

type_synonym scan_results = "(char \<times> int) list"

record job =
  job_id :: string
  file_hash :: string
  original_filename :: string
  file_size :: int
  status :: JobStatus
  results :: "scan_results option"
  error_message :: "string option"
  created_at :: int
  updated_at :: int
  completed_at :: "int option"
  expires_at :: int

definition seconds_per_day :: int where
  "seconds_per_day = 86400"

text \<open>
  \<^verbatim>\<open>json.dumps(results) if results else None\<close>: a missing and an empty dictionary
  both become SQL NULL.
\<close>

definition results_json :: "scan_results option \<Rightarrow> scan_results option" where
  "results_json r = (case r of None \<Rightarrow> None | Some d \<Rightarrow> if d = [] then None else Some d)"


definition get_job :: "job list \<Rightarrow> string \<Rightarrow> job option" where
  "get_job rows jid = find (\<lambda>j. job_id j = jid) rows"




text \<open>
  \<^verbatim>\<open>Database.update_job_status\<close>: the UPDATE has no condition on the current
  status. The trigger of the schema sets \<^verbatim>\<open>updated_at\<close>. The result is whether
  one row was updated.
\<close>

definition updated_row ::
  "int \<Rightarrow> JobStatus \<Rightarrow> scan_results option \<Rightarrow> string option \<Rightarrow> job \<Rightarrow> job" where
  "updated_row now st res err j =
     j \<lparr> status := st,
         results := (case results_json res of None \<Rightarrow> results j | Some d \<Rightarrow> Some d),
         error_message := err,
         completed_at := (if st = Completed \<or> st = Failed then Some now else completed_at j),
         updated_at := now \<rparr>"

definition update_rows ::
  "int \<Rightarrow> job list \<Rightarrow> string \<Rightarrow> JobStatus \<Rightarrow> scan_results option \<Rightarrow> string option \<Rightarrow> job list" where
  "update_rows now rows jid st res err =
     map (\<lambda>j. if job_id j = jid then updated_row now st res err j else j) rows"

definition update_job_status ::
  "int \<Rightarrow> job list \<Rightarrow> string \<Rightarrow> JobStatus \<Rightarrow> scan_results option \<Rightarrow> string option
     \<Rightarrow> job list \<times> bool" where
  "update_job_status now rows jid st res err =
     (update_rows now rows jid st res err,
      length (filter (\<lambda>j. job_id j = jid) rows) = 1)"

definition delete_expired_jobs :: "int \<Rightarrow> job list \<Rightarrow> job list \<times> int" where
  "delete_expired_jobs now rows =
     (filter (\<lambda>j. \<not> expires_at j < now) rows,
      int (length (filter (\<lambda>j. expires_at j < now) rows)))"

text \<open>
  \<^verbatim>\<open>get_old_file_hashes(days)\<close>:
  \<^verbatim>\<open>SELECT DISTINCT file_hash FROM jobs WHERE created_at < NOW() - INTERVAL '1 day' * $1\<close>.
\<close>

definition get_old_file_hashes :: "int \<Rightarrow> job list \<Rightarrow> int \<Rightarrow> string list" where
  "get_old_file_hashes now rows days =
     remdups (map file_hash (filter (\<lambda>j. created_at j < now - seconds_per_day * days) rows))"

section \<open>Retention (app/cleanup.py)\<close>

text \<open>
  The dictionaries \<^verbatim>\<open>cleanup_by_storage_state\<close> returns: the error of the stats,
  the result of a tier branch (tier, files deleted, percentage), or the result of the
  standard cleanup (jobs deleted, files deleted); the first two carry the result of the
  orphan cleanup.
\<close>

datatype cleanup_result =
    CleanupStatsError string orphan_result
  | TierCleanup storage_status int real orphan_result
  | ExpiredCleanup int int

definition cleanup_expired_files ::
  "settings \<Rightarrow> int \<Rightarrow> filesystem \<Rightarrow> job list \<Rightarrow> (filesystem \<times> job list) \<times> cleanup_result" where
  "cleanup_expired_files cfg now fs rows =
     (case delete_expired_jobs now rows of
        (rows1, deleted_jobs) \<Rightarrow>
          (case delete_files cfg fs (get_old_file_hashes now rows1 (file_retention_days cfg)) of
             (fs1, deleted_files) \<Rightarrow> ((fs1, rows1), ExpiredCleanup deleted_jobs deleted_files)))"

definition tier_cleanup ::
  "settings \<Rightarrow> int \<Rightarrow> filesystem \<Rightarrow> job list \<Rightarrow> int \<Rightarrow> filesystem \<times> int" where
  "tier_cleanup cfg now fs rows days = delete_files cfg fs (get_old_file_hashes now rows days)"

text \<open>
  \<^verbatim>\<open>cleanup_by_storage_state\<close>, on the files and the rows; \<open>usage\<close> is what
  \<^verbatim>\<open>shutil.disk_usage\<close> does when the stats are read.
\<close>

definition cleanup_by_storage_state ::
  "settings \<Rightarrow> int \<Rightarrow> string + disk_usage \<Rightarrow> filesystem \<Rightarrow> job list
     \<Rightarrow> (filesystem \<times> job list) \<times> cleanup_result" where
  "cleanup_by_storage_state cfg now usage fs rows =
     (case cleanup_orphaned_temp_files cfg now fs of
        (fs1, orphaned_result) \<Rightarrow>
          (case get_storage_stats cfg usage of
             Inl err \<Rightarrow> ((fs1, rows), CleanupStatsError err orphaned_result)
           | Inr stats \<Rightarrow>
               if stats_status stats = Emergency then
                 (case tier_cleanup cfg now fs1 rows 0 of
                    (fs2, deleted) \<Rightarrow>
                      ((fs2, rows), TierCleanup Emergency deleted (percent_used stats) orphaned_result))
               else if stats_status stats = Critical then
                 (case tier_cleanup cfg now fs1 rows 1 of
                    (fs2, deleted) \<Rightarrow>
                      ((fs2, rows), TierCleanup Critical deleted (percent_used stats) orphaned_result))
               else if stats_status stats = Warning then
                 (case tier_cleanup cfg now fs1 rows 3 of
                    (fs2, deleted) \<Rightarrow>
                      ((fs2, rows), TierCleanup Warning deleted (percent_used stats) orphaned_result))
               else cleanup_expired_files cfg now fs1 rows))"

section \<open>The scan (scripts/worker\_simulator.py)\<close>

text \<open>
  \<^verbatim>\<open>str.upper\<close> and the test \<^verbatim>\<open>'A' <= char <= 'Z'\<close>. The file is read as
  text; the embedding covers ASCII text, one \<^typ>\<open>char\<close> per character, where
  \<^verbatim>\<open>upper\<close> changes the letters a to z only.
\<close>

definition py_upper :: "char \<Rightarrow> char" where
  "py_upper c =
     (if CHR ''a'' \<le> c \<and> c \<le> CHR ''z'' then char_of (of_char c - (32::nat)) else c)"

text \<open>
  The texts the embedding of the scan covers: every character is below 128, so that
  decoding the bytes as UTF-8 gives one character per byte.
\<close>

definition is_ascii :: "char \<Rightarrow> bool" where
  "is_ascii c = (of_char c < (128::nat))"

text \<open>\<^verbatim>\<open>{chr(i): 0 for i in range(65, 91)}\<close>.\<close>

definition initial_counts :: scan_results where
  "initial_counts = map (\<lambda>i. (char_of i, 0)) [65..<91]"

text \<open>The body of the inner loop: \<^verbatim>\<open>counts[char] += 1\<close> for a letter A to Z.\<close>

definition count_char :: "scan_results \<Rightarrow> char \<Rightarrow> scan_results" where
  "count_char counts ch =
     (if CHR ''A'' \<le> ch \<and> ch \<le> CHR ''Z''
      then map (\<lambda>(k, v). if k = ch then (k, v + 1) else (k, v)) counts
      else counts)"

function scan_chunks :: "string \<Rightarrow> scan_results \<Rightarrow> scan_results" where
  "scan_chunks text counts =
     (if take chunk_size text = [] then counts
      else scan_chunks (drop chunk_size text)
             (foldl count_char counts (map py_upper (take chunk_size text))))"
  by pat_completeness auto
termination
  by (relation "measure (\<lambda>(text, counts). length text)") (auto simp: chunk_size_def)

definition scan_file :: "filesystem \<Rightarrow> string \<Rightarrow> error + scan_results" where
  "scan_file fs file_path =
     (case map_of fs file_path of
        None \<Rightarrow> Inl (FileNotFoundError (''File not found: '' @ file_path))
      | Some f \<Rightarrow> Inr (scan_chunks (content f) initial_counts))"

section \<open>Cache and queue (app/cache.py, app/queue.py)\<close>

text \<open>
  The value cached under \<^verbatim>\<open>file:{hash}:results\<close>. A cache maps a key to a value
  and the time at which Redis drops it (\<^verbatim>\<open>setex\<close>).
\<close>

record file_cache_entry =
  fc_file_hash :: string
  fc_results :: scan_results
  fc_file_size :: int

text \<open>
  A queue entry (\<^verbatim>\<open>publish_job\<close>): the size and the time are written as decimal
  strings and read back with \<^verbatim>\<open>int\<close>.
\<close>

record message =
  msg_job_id :: string
  msg_file_hash :: string
  msg_file_path :: string
  msg_file_size :: int
  msg_timestamp :: int

text \<open>
  The whole state: files, the rows of \<^verbatim>\<open>jobs\<close>, the two caches, and the stream
  with its consumer group: entries are identified by their position, \<open>delivered\<close>
  counts the entries handed to the group, \<open>pending\<close> lists the entries delivered and
  not acknowledged.
\<close>

record sys =
  files :: filesystem
  jobs :: "job list"
  file_cache :: "string \<Rightarrow> (file_cache_entry \<times> int) option"
  job_cache :: "string \<Rightarrow> (job \<times> int) option"
  stream :: "message list"
  delivered :: nat
  pending :: "nat list"





section \<open>Upload (app/api.py)\<close>









section \<open>The worker (scripts/worker\_simulator.py)\<close>












text \<open>
  The status changes of a job along a list of states: the pairs of the status before
  and after, for each step that changes it.
\<close>

definition status_of :: "sys \<Rightarrow> string \<Rightarrow> JobStatus option" where
  "status_of s jid = map_option status (get_job (jobs s) jid)"

fun transitions :: "string \<Rightarrow> sys list \<Rightarrow> (JobStatus \<times> JobStatus) list" where
  "transitions jid (s # t # rest) =
     (case (status_of s jid, status_of t jid) of
        (Some a, Some b) \<Rightarrow> (if a \<noteq> b then [(a, b)] else []) @ transitions jid (t # rest)
      | _ \<Rightarrow> transitions jid (t # rest))"
| "transitions jid passed = []"

section \<open>Example data\<close>

definition hello_hash :: string where
  "hello_hash = ''2cf24dba5fb0a30e26e83b2ac5b9e29e1b161e5c1fa7425e73043362938b9824''"

definition hello_path :: string where
  "hello_path = get_file_path default_settings hello_hash"

text \<open>A job created at time 996400, one hour before the time 1000000.\<close>

definition young_job :: job where
  "young_job =
     \<lparr> job_id = ''5f0c1a2e'', file_hash = hello_hash, original_filename = ''a.txt'',
       file_size = 5, status = Completed, results = None, error_message = None,
       created_at = 996400, updated_at = 996400, completed_at = None,
       expires_at = 1601200 \<rparr>"

text \<open>
  Stand-ins for closed instances: a digest (the theorems hold for every \<open>H\<close>), the
  environment of a save on a sound disk, and one on a disk that stores other bytes than
  it was given.
\<close>

definition plain_digest :: "string \<Rightarrow> string" where
  "plain_digest bytes = bytes"

definition sound_env :: "string \<Rightarrow> save_env" where
  "sound_env u = \<lparr> temp_uuid = u, save_now = 1000000, fault = NoFault, stored = (\<lambda>bytes. bytes) \<rparr>"

definition corrupting_env :: save_env where
  "corrupting_env =
     \<lparr> temp_uuid = ''0a'', save_now = 1000000, fault = NoFault, stored = (\<lambda>bytes. ''hellp'') \<rparr>"

text \<open>
  The example of the specification: a file holding the nine bytes AAAbbbCCC, the
  result the specification gives for it (A and C three times, every other letter zero),
  and the result with B counted as well.
\<close>

definition abc_fs :: filesystem where
  "abc_fs = [(''/data/abc'', \<lparr>content = ''AAAbbbCCC'', mtime = 1000000\<rparr>)]"

definition spec_example_result :: scan_results where
  "spec_example_result =
     map (\<lambda>k. (k, if k = CHR ''A'' \<or> k = CHR ''C'' then 3 else 0)) ''ABCDEFGHIJKLMNOPQRSTUVWXYZ''"

definition abc_result :: scan_results where
  "abc_result =
     map (\<lambda>k. (k, if k = CHR ''A'' \<or> k = CHR ''B'' \<or> k = CHR ''C'' then 3 else 0))
       ''ABCDEFGHIJKLMNOPQRSTUVWXYZ''"










section \<open>Properties\<close>


subsection \<open>Float arithmetic at the examples\<close>

lemma round_to_double_binade:
  assumes "2 powr real_of_int e \<le> \<bar>x\<bar>" and "\<bar>x\<bar> < 2 powr real_of_int (e + 1)"
  shows "round_to_double x
           = real_of_int (round_half_even (x / 2 powr real_of_int (e - 52)))
               * 2 powr real_of_int (e - 52)"
proof -
  have pos: "0 < \<bar>x\<bar>"
    using assms(1) by (smt (verit) powr_gt_zero)
  have "\<lfloor>log 2 \<bar>x\<bar>\<rfloor> = e"
    using assms pos by (simp add: floor_log_eq_powr_iff)
  moreover have "x \<noteq> 0" using pos by simp
  ultimately show ?thesis by (simp add: round_to_double_def Let_def)
qed

lemma p53: "2 powr real_of_int (- 1 - 52) = 1 / 9007199254740992"
proof -
  have "(2::real) powr - 53 = inverse (2 powr 53)" by (rule powr_minus)
  also have "(2::real) powr 53 = 2 ^ 53" by (rule powr_numeral) simp
  finally show ?thesis by (simp add: inverse_eq_divide)
qed

lemma rd_96_100: "round_to_double (96 / 100) = 8646911284551352 / 9007199254740992"
proof -
  have "round_to_double (96 / 100)
      = real_of_int (round_half_even ((96 / 100) / 2 powr real_of_int (- 1 - 52)))
               * 2 powr real_of_int (- 1 - 52)"
    by (rule round_to_double_binade) (simp_all add: powr_real_of_int)
  also have "\<dots> = 8646911284551352 / 9007199254740992"
    unfolding p53 by (simp add: round_half_even_def Let_def)
  finally show ?thesis .
qed

lemma p46: "2 powr real_of_int (6 - 52) = 1 / 70368744177664"
proof -
  have "(2::real) powr - 46 = inverse (2 powr 46)" by (rule powr_minus)
  also have "(2::real) powr 46 = 2 ^ 46" by (rule powr_numeral) simp
  finally show ?thesis by (simp add: inverse_eq_divide)
qed

lemma rd_96: "round_to_double (8646911284551352 / 9007199254740992 * 100) = 96"
proof -
  have "round_to_double (8646911284551352 / 9007199254740992 * 100)
      = real_of_int (round_half_even ((8646911284551352 / 9007199254740992 * 100)
            / 2 powr real_of_int (6 - 52)))
               * 2 powr real_of_int (6 - 52)"
    by (rule round_to_double_binade) (simp_all add: powr_real_of_int)
  also have "\<dots> = 96"
    unfolding p46 by (simp add: round_half_even_def Let_def)
  finally show ?thesis .
qed

lemma float_percent_96: "float_percent 96 100 = 96"
  unfolding float_percent_def of_int_numeral rd_96_100 rd_96 ..




subsection \<open>Storage tiers and admission\<close>

lemma py_round2_of_int: "py_round2 (real_of_int n) = real_of_int n"
proof -
  have e: "real_of_int n * 100 = real_of_int (n * 100)" by simp
  have "round_half_even (real_of_int (n * 100)) = n * 100"
    unfolding round_half_even_def Let_def floor_of_int by simp
  then show ?thesis
    unfolding py_round2_def e by simp
qed



text \<open>
  C10. Admission control fails open: whenever the storage statistics carry an error
  instead of a tier, \<^verbatim>\<open>should_accept_upload\<close> accepts with reason "ok". That is the
  case exactly when \<^verbatim>\<open>shutil.disk_usage\<close> raises or reports a total of zero, whatever
  the real pressure on the disk is.
\<close>

theorem admission_fails_open:
  "(get_storage_stats cfg usage = Inl err \<longrightarrow> should_accept_upload cfg usage = (True, ReasonOk))
   \<and> ((\<exists>e. get_storage_stats cfg usage = Inl e)
        \<longleftrightarrow> (case usage of Inl msg \<Rightarrow> True | Inr du \<Rightarrow> du_total du = 0))"
  by (auto simp: should_accept_upload_def get_storage_stats_def Let_def split: sum.splits)

theorem admission_fails_open_witness:
  "get_storage_stats default_settings (Inl ''[Errno 2] No such file or directory'')
     = Inl ''[Errno 2] No such file or directory''
   \<and> should_accept_upload default_settings (Inl ''[Errno 2] No such file or directory'')
     = (True, ReasonOk)"
proof -
  have g: "get_storage_stats default_settings (Inl ''[Errno 2] No such file or directory'')
     = Inl ''[Errno 2] No such file or directory''"
    by (simp add: get_storage_stats_def)
  from admission_fails_open [of default_settings "Inl ''[Errno 2] No such file or directory''"
      "''[Errno 2] No such file or directory''"] g
  show ?thesis by simp
qed

subsection \<open>The loops over chunks\<close>

lemma stream_chunks_eq:
  "stream_chunks file_data (hashed, n, written) =
     (hashed @ file_data, n + int (length file_data), written @ file_data)"
proof (induction file_data "(hashed, n, written)" arbitrary: hashed n written rule: stream_chunks.induct)
  case (1 file_data hashed file_size written)
  show ?case
  proof (cases "take chunk_size file_data = []")
    case True
    then have "file_data = []" by (auto simp: chunk_size_def)
    then show ?thesis by simp
  next
    case False
    have l: "int (length (take chunk_size file_data)) + int (length (drop chunk_size file_data))
        = int (length file_data)"
      by simp
    from False "1.hyps" [OF False] l show ?thesis
      by (subst stream_chunks.simps) (simp del: stream_chunks.simps length_take length_drop add: add.assoc)
  qed
qed

lemma verify_chunks_eq: "verify_chunks file_data hashed = hashed @ file_data"
proof (induction file_data hashed rule: verify_chunks.induct)
  case (1 file_data hashed)
  show ?case
  proof (cases "take chunk_size file_data = []")
    case True
    then have "file_data = []" by (auto simp: chunk_size_def)
    then show ?thesis by simp
  next
    case False
    from False "1.IH" [OF False] show ?thesis
      by (subst verify_chunks.simps) (simp del: verify_chunks.simps)
  qed
qed

lemma scan_chunks_eq: "scan_chunks chars counts = foldl count_char counts (map py_upper chars)"
proof (induction chars counts rule: scan_chunks.induct)
  case (1 chars counts)
  show ?case
  proof (cases "take chunk_size chars = []")
    case True
    then have "chars = []" by (auto simp: chunk_size_def)
    then show ?thesis by simp
  next
    case False
    have "foldl count_char counts (map py_upper chars)
        = foldl count_char counts (map py_upper (take chunk_size chars @ drop chunk_size chars))"
      by simp
    also have "\<dots> = foldl count_char (foldl count_char counts (map py_upper (take chunk_size chars)))
         (map py_upper (drop chunk_size chars))"
      unfolding map_append foldl_append ..
    finally show ?thesis
      using False "1.IH" [OF False]
      by (subst scan_chunks.simps) (simp del: scan_chunks.simps)
  qed
qed

lemma foldl_count_char:
  "foldl count_char counts xs =
     map (\<lambda>(k, v). (k, v + (if CHR ''A'' \<le> k \<and> k \<le> CHR ''Z'' then int (count_list xs k) else 0))) counts"
proof (induction xs arbitrary: counts)
  case Nil
  show ?case
    unfolding foldl_Nil by (rule map_idI [symmetric]) auto
next
  case (Cons x xs)
  show ?case
    unfolding foldl_Cons Cons.IH
    by (auto simp: count_char_def case_prod_unfold)
qed

lemma initial_counts_eq:
  "initial_counts = map (\<lambda>k. (k, 0)) ''ABCDEFGHIJKLMNOPQRSTUVWXYZ''"
  by code_simp

lemma scan_counts:
  "scan_chunks chars initial_counts =
     map (\<lambda>k. (k, int (count_list (map py_upper chars) k))) ''ABCDEFGHIJKLMNOPQRSTUVWXYZ''"
  unfolding scan_chunks_eq foldl_count_char initial_counts_eq
  by simp

subsection \<open>The outcomes of a save\<close>

lemma temp_ne_final: "temp_file_path cfg u fn \<noteq> get_file_path cfg h"
proof (cases h)
  case Nil
  then show ?thesis by (simp add: temp_file_path_def get_file_path_def)
next
  case (Cons a t)
  show ?thesis
  proof (cases t)
    case Nil
    with Cons show ?thesis by (simp add: temp_file_path_def get_file_path_def)
  next
    case (Cons b t')
    with \<open>h = a # t\<close> show ?thesis by (simp add: temp_file_path_def get_file_path_def)
  qed
qed

lemma map_of_unlink: "map_of (unlink p fs) = (map_of fs)(p := None)"
  by (simp add: unlink_def delete_conv')

lemma map_of_write_file: "map_of (write_file p f fs) = (map_of fs)(p \<mapsto> f)"
  by (simp add: write_file_def update_conv')

lemma map_of_move_file:
  "map_of fs src = Some f \<Longrightarrow> map_of (move_file src dst fs) = (map_of fs)(src := None, dst \<mapsto> f)"
  by (simp add: move_file_def map_of_write_file map_of_unlink)

lemma path_exists_temp_written:
  "path_exists (write_file (temp_file_path cfg u fn) f fs) (get_file_path cfg h)
     = path_exists fs (get_file_path cfg h)"
  using temp_ne_final [of cfg u fn h]
  by (simp add: path_exists_def map_of_write_file)

lemma save_stream_timeout:
  "fault env = StreamTimeout \<Longrightarrow>
   calculate_hash_and_save H cfg env fs file_data filename =
     (unlink (temp_file_path cfg (temp_uuid env) filename) fs,
      Inl (HTTPException 408 (timeout_detail cfg)))"
  by (simp add: calculate_hash_and_save_def)

lemma save_stream_oserror:
  "fault env = StreamOSError msg \<Longrightarrow>
   calculate_hash_and_save H cfg env fs file_data filename =
     (unlink (temp_file_path cfg (temp_uuid env) filename) fs, Inl (OSError msg))"
  by (simp add: calculate_hash_and_save_def)

lemma save_dedup:
  "fault env = NoFault \<or> fault env = VerifyTimeout \<Longrightarrow>
   path_exists fs (get_file_path cfg (H file_data)) \<Longrightarrow>
   calculate_hash_and_save H cfg env fs file_data filename =
     (unlink (temp_file_path cfg (temp_uuid env) filename)
        (write_file (temp_file_path cfg (temp_uuid env) filename)
           \<lparr>content = stored env file_data, mtime = save_now env\<rparr> fs),
      Inr (H file_data, int (length file_data), get_file_path cfg (H file_data)))"
  unfolding calculate_hash_and_save_def Let_def stream_chunks_eq
  by (auto simp add: path_exists_temp_written)

lemma save_verify_timeout:
  "fault env = VerifyTimeout \<Longrightarrow>
   \<not> path_exists fs (get_file_path cfg (H file_data)) \<Longrightarrow>
   calculate_hash_and_save H cfg env fs file_data filename =
     (unlink (temp_file_path cfg (temp_uuid env) filename)
        (write_file (temp_file_path cfg (temp_uuid env) filename)
           \<lparr>content = stored env file_data, mtime = save_now env\<rparr> fs),
      Inl (HTTPException 408 (timeout_detail cfg)))"
  unfolding calculate_hash_and_save_def Let_def stream_chunks_eq
  by (simp add: path_exists_temp_written)

lemma verify_written:
  "verify_file_integrity H (write_file p \<lparr>content = c, mtime = t\<rparr> fs) p h =
     (if H c \<noteq> h
      then (unlink p (write_file p \<lparr>content = c, mtime = t\<rparr> fs), Inl (OSError corruption_message))
      else (write_file p \<lparr>content = c, mtime = t\<rparr> fs, Inr ()))"
  unfolding verify_file_integrity_def Let_def verify_chunks_eq
  by (simp add: map_of_write_file)

lemma save_corrupt:
  "fault env = NoFault \<Longrightarrow>
   \<not> path_exists fs (get_file_path cfg (H file_data)) \<Longrightarrow>
   H (stored env file_data) \<noteq> H file_data \<Longrightarrow>
   calculate_hash_and_save H cfg env fs file_data filename =
     (unlink (temp_file_path cfg (temp_uuid env) filename)
        (unlink (temp_file_path cfg (temp_uuid env) filename)
           (write_file (temp_file_path cfg (temp_uuid env) filename)
              \<lparr>content = stored env file_data, mtime = save_now env\<rparr> fs)),
      Inl (OSError corruption_message))"
  unfolding calculate_hash_and_save_def Let_def stream_chunks_eq
  by (simp add: path_exists_temp_written verify_written)

lemma save_commit:
  "fault env = NoFault \<Longrightarrow>
   \<not> path_exists fs (get_file_path cfg (H file_data)) \<Longrightarrow>
   H (stored env file_data) = H file_data \<Longrightarrow>
   calculate_hash_and_save H cfg env fs file_data filename =
     (move_file (temp_file_path cfg (temp_uuid env) filename) (get_file_path cfg (H file_data))
        (write_file (temp_file_path cfg (temp_uuid env) filename)
           \<lparr>content = stored env file_data, mtime = save_now env\<rparr> fs),
      Inr (H file_data, int (length file_data), get_file_path cfg (H file_data)))"
  unfolding calculate_hash_and_save_def Let_def stream_chunks_eq
  by (simp add: path_exists_temp_written verify_written)

lemma save_success:
  assumes "calculate_hash_and_save H cfg env fs0 c fn = (fs1, Inr (h, n, p))"
  shows "h = H c \<and> n = int (length c) \<and> p = get_file_path cfg (H c)
         \<and> path_exists fs1 p
         \<and> dom (map_of fs1) \<subseteq> dom (map_of fs0) \<union> {p}"
proof (cases "fault env")
  case StreamTimeout
  with assms show ?thesis by (simp add: save_stream_timeout)
next
  case (StreamOSError msg)
  with assms show ?thesis by (simp add: save_stream_oserror)
next
  case VerifyTimeout
  show ?thesis
  proof (cases "path_exists fs0 (get_file_path cfg (H c))")
    case True
    with VerifyTimeout assms temp_ne_final [of cfg "temp_uuid env" fn "H c"] show ?thesis
      by (auto simp: save_dedup path_exists_def map_of_unlink map_of_write_file
          split: if_splits)
  next
    case False
    with VerifyTimeout assms show ?thesis by (simp add: save_verify_timeout)
  qed
next
  case NoFault
  show ?thesis
  proof (cases "path_exists fs0 (get_file_path cfg (H c))")
    case True
    with NoFault assms temp_ne_final [of cfg "temp_uuid env" fn "H c"] show ?thesis
      by (auto simp: save_dedup path_exists_def map_of_unlink map_of_write_file
          split: if_splits)
  next
    case False
    show ?thesis
    proof (cases "H (stored env c) = H c")
      case True
      with NoFault False assms temp_ne_final [of cfg "temp_uuid env" fn "H c"] show ?thesis
        by (auto simp: save_commit path_exists_def map_of_move_file map_of_write_file
            split: if_splits)
    next
      case ne: False
      with NoFault False assms show ?thesis by (simp add: save_corrupt)
    qed
  qed
qed

subsection \<open>Corruption and storage-level deduplication\<close>

text \<open>
  C3. When the save reaches the verification (no timeout, and the canonical location
  of the streaming digest is free) and the digest recomputed from the temporary file
  differs from the streaming digest, the save raises the corruption error
  (\<^verbatim>\<open>IOError("File corruption detected during upload")\<close>), the temporary file is
  gone, and nothing exists at the canonical location: the move is never performed.
\<close>

theorem corrupted_save_fails:
  assumes "fault env = NoFault"
    and "\<not> path_exists fs (get_file_path cfg (H file_data))"
    and "H (stored env file_data) \<noteq> H file_data"
  shows "\<exists>fs'. calculate_hash_and_save H cfg env fs file_data filename
              = (fs', Inl (OSError corruption_message))
           \<and> \<not> path_exists fs' (temp_file_path cfg (temp_uuid env) filename)
           \<and> \<not> path_exists fs' (get_file_path cfg (H file_data))"
  using assms temp_ne_final [of cfg "temp_uuid env" filename "H file_data"]
  by (simp add: save_corrupt path_exists_def map_of_unlink map_of_write_file)

theorem corrupted_save_fails_witness:
  "fault corrupting_env = NoFault
   \<and> \<not> path_exists [] (get_file_path default_settings (plain_digest ''hello''))
   \<and> plain_digest (stored corrupting_env ''hello'') \<noteq> plain_digest ''hello''
   \<and> (\<exists>fs'. calculate_hash_and_save plain_digest default_settings corrupting_env [] ''hello'' ''a.txt''
              = (fs', Inl (OSError corruption_message))
           \<and> \<not> path_exists fs' (temp_file_path default_settings (temp_uuid corrupting_env) ''a.txt'')
           \<and> \<not> path_exists fs' (get_file_path default_settings (plain_digest ''hello'')))"
proof -
  have a: "fault corrupting_env = NoFault" by (simp add: corrupting_env_def)
  have b: "\<not> path_exists [] (get_file_path default_settings (plain_digest ''hello''))"
    by (simp add: path_exists_def)
  have c: "plain_digest (stored corrupting_env ''hello'') \<noteq> plain_digest ''hello''"
    by (simp add: corrupting_env_def plain_digest_def)
  from corrupted_save_fails [of corrupting_env "[]" default_settings plain_digest "''hello''" "''a.txt''",
      OF a b c] a b c
  show ?thesis by blast
qed

text \<open>
  C2. After a save of content \<open>c\<close> that succeeded, a second save of \<open>c\<close> (under
  any file name and any fresh temporary name, with no fault) succeeds with the same
  fingerprint, size and location; it finds the canonical location occupied, removes its
  own temporary file, leaves the file at the canonical location as it was, and the two
  saves together have created no path but the canonical one.
\<close>

theorem save_twice_one_artifact:
  assumes first: "calculate_hash_and_save H cfg env1 fs0 c fn1 = (fs1, Inr (h1, n1, p1))"
    and nofault: "fault env2 = NoFault"
  shows "\<exists>fs2. calculate_hash_and_save H cfg env2 fs1 c fn2 = (fs2, Inr (h1, n1, p1))
           \<and> h1 = H c \<and> p1 = get_file_path cfg (H c)
           \<and> map_of fs2 = (map_of fs1)(temp_file_path cfg (temp_uuid env2) fn2 := None)
           \<and> \<not> path_exists fs2 (temp_file_path cfg (temp_uuid env2) fn2)
           \<and> path_exists fs2 p1
           \<and> map_of fs2 p1 = map_of fs1 p1
           \<and> dom (map_of fs2) - dom (map_of fs0) \<subseteq> {p1}"
proof -
  from save_success [OF first]
  have h: "h1 = H c" and n: "n1 = int (length c)" and p: "p1 = get_file_path cfg (H c)"
    and ex: "path_exists fs1 p1" and d: "dom (map_of fs1) \<subseteq> dom (map_of fs0) \<union> {p1}"
    by blast+
  let ?temp = "temp_file_path cfg (temp_uuid env2) fn2"
  let ?fs2 = "unlink ?temp (write_file ?temp \<lparr>content = stored env2 c, mtime = save_now env2\<rparr> fs1)"
  have ne: "?temp \<noteq> p1"
    unfolding p by (rule temp_ne_final)
  have run: "calculate_hash_and_save H cfg env2 fs1 c fn2 = (?fs2, Inr (h1, n1, p1))"
    using nofault ex unfolding h n p by (simp add: save_dedup)
  have m: "map_of ?fs2 = (map_of fs1)(?temp := None)"
    by (simp add: map_of_unlink map_of_write_file)
  have "dom (map_of ?fs2) \<subseteq> dom (map_of fs1)"
    unfolding m by auto
  with d have dd: "dom (map_of ?fs2) - dom (map_of fs0) \<subseteq> {p1}" by blast
  from ne ex have "path_exists ?fs2 p1" "map_of ?fs2 p1 = map_of fs1 p1"
    unfolding m path_exists_def by simp_all
  moreover have "\<not> path_exists ?fs2 ?temp"
    unfolding path_exists_def m by simp
  ultimately show ?thesis
    using run h p m dd by blast
qed

theorem save_twice_one_artifact_witness:
  "\<exists>fs1 fs2.
     calculate_hash_and_save plain_digest default_settings (sound_env ''0a'') [] ''hello'' ''a.txt''
       = (fs1, Inr (''hello'', 5, get_file_path default_settings ''hello''))
     \<and> calculate_hash_and_save plain_digest default_settings (sound_env ''0b'') fs1 ''hello'' ''b.txt''
       = (fs2, Inr (''hello'', 5, get_file_path default_settings ''hello''))
     \<and> path_exists fs2 (get_file_path default_settings ''hello'')
     \<and> map_of fs2 (get_file_path default_settings ''hello'')
         = map_of fs1 (get_file_path default_settings ''hello'')
     \<and> \<not> path_exists fs2 (temp_file_path default_settings ''0b'' ''b.txt'')"
proof -
  define fs1 where "fs1 = move_file (temp_file_path default_settings ''0a'' ''a.txt'')
       (get_file_path default_settings ''hello'')
       (write_file (temp_file_path default_settings ''0a'' ''a.txt'')
          \<lparr>content = ''hello'', mtime = 1000000\<rparr> [])"
  have first: "calculate_hash_and_save plain_digest default_settings (sound_env ''0a'') [] ''hello'' ''a.txt''
       = (fs1, Inr (''hello'', 5, get_file_path default_settings ''hello''))"
    unfolding fs1_def
    using save_commit [of "sound_env ''0a''" "[]" default_settings plain_digest "''hello''" "''a.txt''"]
    by (simp add: sound_env_def plain_digest_def path_exists_def)
  have nf: "fault (sound_env ''0b'') = NoFault" by (simp add: sound_env_def)
  from save_twice_one_artifact [OF first nf, of "''b.txt''"] first
  show ?thesis
    by (auto simp: sound_env_def plain_digest_def)
qed

subsection \<open>The scan\<close>

lemma upper_abc: "map py_upper ''AAAbbbCCC'' = ''AAABBBCCC''"
  by code_simp

lemma scan_abc: "scan_file abc_fs ''/data/abc'' = Inr abc_result"
  by (simp add: scan_file_def abc_fs_def scan_counts abc_result_def upper_abc
      del: scan_chunks.simps list.map)

lemma save_fingerprint:
  assumes "fault env = NoFault" and "H (stored env c) = H c"
  shows "\<exists>fs'. calculate_hash_and_save H cfg env fs c fn
            = (fs', Inr (H c, int (length c), get_file_path cfg (H c)))"
proof (cases "path_exists fs (get_file_path cfg (H c))")
  case True
  with assms show ?thesis by (simp add: save_dedup)
next
  case False
  with assms show ?thesis by (simp add: save_commit)
qed

text \<open>
  C8, as the specification states it, fails: scanning AAAbbbCCC does not give the
  result with B at zero. The three lower-case b are upper-cased before the letters are
  counted, so B is counted three times.
\<close>

theorem scan_example_counterexample:
  "scan_file abc_fs ''/data/abc'' \<noteq> Inr spec_example_result
   \<and> (case scan_file abc_fs ''/data/abc'' of
         Inl e \<Rightarrow> False
       | Inr r \<Rightarrow> map_of r CHR ''B'' = Some 3 \<and> map_of spec_example_result CHR ''B'' = Some 0)"
  by (simp add: scan_abc abc_result_def spec_example_result_def)

text \<open>
  C8, amended. For every stored file of ASCII text the scan returns the 26 letters A to
  Z in order, each with the number of its occurrences in the upper-cased content (so
  lower-case letters count for their capitals, other characters are ignored, and no
  count is negative). For AAAbbbCCC that is A, B and C three times each and zero for
  the other 23 letters. A save of these bytes that passes the verification returns the
  digest of AAAbbbCCC as fingerprint and 9 as size.
\<close>

theorem scan_counts_letters:
  "(map_of fs p = Some f \<and> list_all is_ascii (content f) \<longrightarrow>
      scan_file fs p =
        Inr (map (\<lambda>k. (k, int (count_list (map py_upper (content f)) k)))
               ''ABCDEFGHIJKLMNOPQRSTUVWXYZ''))
   \<and> scan_file abc_fs ''/data/abc'' = Inr abc_result
   \<and> (fault env = NoFault \<and> H (stored env ''AAAbbbCCC'') = H ''AAAbbbCCC'' \<longrightarrow>
        (\<exists>fs'. calculate_hash_and_save H cfg env fs0 ''AAAbbbCCC'' fn
            = (fs', Inr (H ''AAAbbbCCC'', 9, get_file_path cfg (H ''AAAbbbCCC'')))))"
proof (intro conjI impI)
  assume "map_of fs p = Some f \<and> list_all is_ascii (content f)"
  then show "scan_file fs p =
        Inr (map (\<lambda>k. (k, int (count_list (map py_upper (content f)) k)))
               ''ABCDEFGHIJKLMNOPQRSTUVWXYZ'')"
    by (simp add: scan_file_def scan_counts del: scan_chunks.simps list.map)
next
  show "scan_file abc_fs ''/data/abc'' = Inr abc_result" by (rule scan_abc)
next
  assume "fault env = NoFault \<and> H (stored env ''AAAbbbCCC'') = H ''AAAbbbCCC''"
  then show "\<exists>fs'. calculate_hash_and_save H cfg env fs0 ''AAAbbbCCC'' fn
            = (fs', Inr (H ''AAAbbbCCC'', 9, get_file_path cfg (H ''AAAbbbCCC'')))"
    using save_fingerprint [of env H "''AAAbbbCCC''" cfg fs0 fn] by simp
qed

theorem scan_counts_letters_witness:
  "map_of abc_fs ''/data/abc'' = Some \<lparr>content = ''AAAbbbCCC'', mtime = 1000000\<rparr>
   \<and> list_all is_ascii ''AAAbbbCCC''
   \<and> scan_file abc_fs ''/data/abc'' =
        Inr (map (\<lambda>k. (k, int (count_list ''AAABBBCCC'' k))) ''ABCDEFGHIJKLMNOPQRSTUVWXYZ'')
   \<and> fault (sound_env ''0a'') = NoFault
   \<and> (\<exists>fs'. calculate_hash_and_save plain_digest default_settings (sound_env ''0a'') []
              ''AAAbbbCCC'' ''abc.txt''
            = (fs', Inr (''AAAbbbCCC'', 9, get_file_path default_settings ''AAAbbbCCC'')))"
proof -
  have a: "map_of abc_fs ''/data/abc'' = Some \<lparr>content = ''AAAbbbCCC'', mtime = 1000000\<rparr>"
    by (simp add: abc_fs_def)
  have b: "fault (sound_env ''0a'') = NoFault
      \<and> plain_digest (stored (sound_env ''0a'') ''AAAbbbCCC'') = plain_digest ''AAAbbbCCC''"
    by (simp add: sound_env_def)
  note t = scan_counts_letters [where fs = abc_fs and p = "''/data/abc''"
      and f = "\<lparr>content = ''AAAbbbCCC'', mtime = 1000000\<rparr>" and env = "sound_env ''0a''"
      and H = plain_digest and ?fs0.0 = "[]" and cfg = default_settings and fn = "''abc.txt''"]
  have asc: "list_all is_ascii ''AAAbbbCCC''"
    by code_simp
  from t a asc have "scan_file abc_fs ''/data/abc'' =
        Inr (map (\<lambda>k. (k, int (count_list ''AAABBBCCC'' k))) ''ABCDEFGHIJKLMNOPQRSTUVWXYZ'')"
    by (simp add: upper_abc del: list.map count_list.simps)
  moreover from t b have "\<exists>fs'. calculate_hash_and_save plain_digest default_settings
        (sound_env ''0a'') [] ''AAAbbbCCC'' ''abc.txt''
            = (fs', Inr (''AAAbbbCCC'', 9, get_file_path default_settings ''AAAbbbCCC''))"
    by (simp add: plain_digest_def)
  ultimately show ?thesis using a b asc by simp
qed

subsection \<open>The size limit of uploads\<close>




subsection \<open>The worker and acknowledgment\<close>



lemma updated_row_job_id: "job_id (updated_row now st res err j) = job_id j"
  unfolding updated_row_def by simp















subsection \<open>Retention under pressure\<close>

text \<open>
  C6, at a concrete input. The disk is 96 percent full (Emergency under the default
  thresholds), the time is 1000000, and the only job was created one hour earlier, so it
  is younger than twelve hours. One cycle of \<^verbatim>\<open>cleanup_by_storage_state\<close>
  deletes its stored content: the Emergency branch asks for the hashes of the jobs older
  than zero days.
\<close>

theorem emergency_cleanup_deletes_young_content:
  "(let fs = [(hello_path, \<lparr>content = ''hello'', mtime = 996400\<rparr>)];
        usage = Inr \<lparr>du_total = 100, du_used = 96, du_free = 4\<rparr>;
        now = 1000000 in
    now - created_at young_job = 3600
    \<and> path_exists fs hello_path
    \<and> cleanup_by_storage_state default_settings now usage fs [young_job]
        = (([], [young_job]),
           TierCleanup Emergency 1 96 \<lparr>deleted_count = 0, deleted_size_bytes = 0\<rparr>))"
  by (simp add: Let_def young_job_def cleanup_by_storage_state_def
      cleanup_orphaned_temp_files_def is_temp_file_def default_settings_def get_file_path_def
      hello_hash_def hello_path_def path_exists_def get_storage_stats_def
      get_storage_status_def py_round2_of_int [of 96, simplified] float_percent_96
      tier_cleanup_def
      get_old_file_hashes_def seconds_per_day_def delete_file_def unlink_def)

end
